theory Spec2Isabelle
  imports Main "HOL-Library.Word"
begin

section \<open>Status codes and error objects\<close>

text \<open>
  The vendor status enumerations are C enums declared in the vendor headers; a status is
  modelled by its integer value. In all three enumerations the success enumerator is 0.
\<close>

type_synonym nvrtcResult = int
type_synonym nvmlReturn_t = int
type_synonym CUresult = int

definition NVRTC_SUCCESS :: nvrtcResult where
  "NVRTC_SUCCESS = 0"

definition NVML_SUCCESS :: nvmlReturn_t where
  "NVML_SUCCESS = 0"

definition CUDA_SUCCESS :: CUresult where
  "CUDA_SUCCESS = 0"

definition CUDA_ERROR_INVALID_VALUE :: CUresult where
  "CUDA_ERROR_INVALID_VALUE = 1"

text \<open>
  \<^verbatim>\<open>nvrtc::Error\<close>, \<^verbatim>\<open>nvml::Error\<close> (and \<^verbatim>\<open>cu::Error\<close> of cu.hpp): one private field
  \<^verbatim>\<open>_result\<close>, set by the constructor.
\<close>

datatype nvrtc_Error = nvrtc_Error (nvrtc_result: nvrtcResult)

datatype nvml_Error = nvml_Error (nvml_result: nvmlReturn_t)

datatype cu_Error = cu_Error (cu_result: CUresult)

text \<open>\<^verbatim>\<open>operator nvrtcResult() const { return _result; }\<close>\<close>

definition operator_nvrtcResult :: "nvrtc_Error \<Rightarrow> nvrtcResult" where
  "operator_nvrtcResult e = nvrtc_result e"

text \<open>\<^verbatim>\<open>operator nvmlReturn_t() const { return _result; }\<close>\<close>

definition operator_nvmlReturn_t :: "nvml_Error \<Rightarrow> nvmlReturn_t" where
  "operator_nvmlReturn_t e = nvml_result e"

text \<open>
  \<^verbatim>\<open>const char* what() const noexcept { return nvmlErrorString(_result); }\<close>
  The vendor's lookup function \<^verbatim>\<open>nvmlErrorString\<close> is a parameter.
\<close>

definition nvml_what :: "(nvmlReturn_t \<Rightarrow> string) \<Rightarrow> nvml_Error \<Rightarrow> string" where
  "nvml_what nvmlErrorString e = nvmlErrorString (nvml_result e)"

text \<open>
  Modelled from the spec: the body of \<^verbatim>\<open>nvrtc::Error::what\<close>. nvrtc.hpp only declares
  \<^verbatim>\<open>const char *what() const noexcept override;\<close> and the defining translation unit is
  not among the sources. The specification says that the error exposes "a human-readable
  message obtained from the vendor's own string-lookup function"; that function
  (\<^verbatim>\<open>nvrtcGetErrorString\<close>) is a parameter.
\<close>

definition nvrtc_what :: "(nvrtcResult \<Rightarrow> string) \<Rightarrow> nvrtc_Error \<Rightarrow> string" where
  "nvrtc_what nvrtcGetErrorString e = nvrtcGetErrorString (nvrtc_result e)"

text \<open>\<^verbatim>\<open>if (result != NVRTC_SUCCESS) throw Error(result);\<close>\<close>

definition checkNvrtcCall :: "nvrtcResult \<Rightarrow> nvrtc_Error + unit" where
  "checkNvrtcCall result =
     (if result \<noteq> NVRTC_SUCCESS then Inl (nvrtc_Error result) else Inr ())"

text \<open>\<^verbatim>\<open>if (result != NVML_SUCCESS) throw Error(result);\<close>\<close>

definition checkNvmlCall :: "nvmlReturn_t \<Rightarrow> nvml_Error + unit" where
  "checkNvmlCall result =
     (if result \<noteq> NVML_SUCCESS then Inl (nvml_Error result) else Inr ())"


section \<open>The native libraries as an environment\<close>

text \<open>
  The vendor libraries are closed. What the wrappers do is: issue native calls in some
  order, with some arguments, and act on what comes back. So the world is the log of the
  native calls issued so far, each with the status it returned, and a library is any
  function that answers a call, given the log.
\<close>

type_synonym nvrtcProgram = nat \<comment> \<open>opaque handle; 0 is the null handle\<close>
type_synonym nvmlDevice_t = nat \<comment> \<open>opaque handle\<close>
type_synonym nvmlFieldValue_t = nat \<comment> \<open>opaque contents\<close>
type_synonym CUdeviceptr = nat

text \<open>
  \<^verbatim>\<open>CUmemorytype\<close> of the driver header, by its four enumerators, and the attach flags
  (\<^verbatim>\<open>unsigned int\<close>).
\<close>

datatype CUmemorytype =
    CU_MEMORYTYPE_HOST
  | CU_MEMORYTYPE_DEVICE
  | CU_MEMORYTYPE_ARRAY
  | CU_MEMORYTYPE_UNIFIED

definition CU_MEM_ATTACH_GLOBAL :: "32 word" where
  "CU_MEM_ATTACH_GLOBAL = 1"

definition CU_MEM_ATTACH_HOST :: "32 word" where
  "CU_MEM_ATTACH_HOST = 2"

text \<open>
  The native calls the wrappers issue, with the arguments they pass. The last one stands
  for the allocation entry points of the driver, which the specification does not name.
\<close>

datatype native_call =
    nvmlInit
  | nvmlShutdown
  | nvmlDeviceGetHandleByIndex int
  | nvmlDeviceGetHandleByUUID string
  | nvmlDeviceGetFieldValues "nvmlDevice_t option" int
  | nvrtcCreateProgram string string int "string list" "string list"
  | nvrtcDestroyProgram nvrtcProgram
  | nvrtcCompileProgram nvrtcProgram int "string list"
  | nvrtcGetPTXSize nvrtcProgram
  | nvrtcGetPTX nvrtcProgram
  | nvrtcGetCUBINSize nvrtcProgram
  | nvrtcGetCUBIN nvrtcProgram
  | nvrtcGetProgramLogSize nvrtcProgram
  | nvrtcGetProgramLog nvrtcProgram
  | native_allocation CUmemorytype nat "32 word"

text \<open>
  What a native call hands back: its status, and what it stored through its
  out-parameters. \<open>None\<close> is an out-parameter the call left untouched; \<open>out_bytes\<close> and
  \<open>out_values\<close> are the elements it stored from the start of the buffer it was given.
\<close>

record reply =
  status :: int
  out_handle :: "nat option"
  out_size :: "nat option"
  out_bytes :: string
  out_values :: "nvmlFieldValue_t list"

type_synonym event = "native_call \<times> int"

type_synonym library = "event list \<Rightarrow> native_call \<Rightarrow> reply"

definition invoke :: "library \<Rightarrow> native_call \<Rightarrow> event list \<Rightarrow> reply \<times> event list" where
  "invoke lib c tr = (let r = lib tr c in (r, tr @ [(c, status r)]))"

text \<open>The value of a variable after its address was passed as an out-parameter.\<close>

definition written :: "'a \<Rightarrow> 'a option \<Rightarrow> 'a" where
  "written init out = (case out of None \<Rightarrow> init | Some v \<Rightarrow> v)"

text \<open>
  A buffer after a native call stored \<open>ws\<close> through a pointer to its first element: the
  elements are overwritten in place and the container's length is not the callee's to
  change. (A callee that stores more than the buffer holds overruns it; what lies beyond
  the buffer is not part of the container.)
\<close>

definition poke :: "'a list \<Rightarrow> 'a list \<Rightarrow> 'a list" where
  "poke buf ws = take (length buf) (ws @ drop (length ws) buf)"

text \<open>\<^verbatim>\<open>std::string::c_str()\<close> read by a C callee: the characters before the first NUL.\<close>

definition c_str :: "string \<Rightarrow> string" where
  "c_str s = takeWhile (\<lambda>c. c \<noteq> CHR 0x00) s"

text \<open>\<^verbatim>\<open>static_cast<int>(v.size())\<close>: a \<^verbatim>\<open>size_t\<close> narrowed to a 32-bit \<^verbatim>\<open>int\<close>.\<close>

definition static_cast_int :: "nat \<Rightarrow> int" where
  "static_cast_int n = sint (word_of_nat n :: 32 word)"

text \<open>\<^verbatim>\<open>s.resize(size)\<close> on a container: truncated, or padded with value-initialised elements.\<close>

definition resize :: "'a \<Rightarrow> 'a list \<Rightarrow> nat \<Rightarrow> 'a list" where
  "resize z xs n = take n xs @ replicate (n - length xs) z"


section \<open>nvml.hpp: the telemetry device\<close>

text \<open>
  \<^verbatim>\<open>nvmlDevice_t device_;\<close> has no initialiser: \<open>None\<close> is the indeterminate value it
  holds until a native call stores a handle. (The member is the field \<open>device\<close>: a name
  cannot end in an underscore here.)
\<close>

record Device =
  device :: "nvmlDevice_t option"

text \<open>
  \<^verbatim>\<open>
  Device(int index) {
    checkNvmlCall(nvmlInit());
    checkNvmlCall(nvmlDeviceGetHandleByIndex(index, &device_));
  }
  \<close>
\<close>

definition Device_int :: "library \<Rightarrow> int \<Rightarrow> event list \<Rightarrow> (nvml_Error + Device) \<times> event list" where
  "Device_int lib index tr =
     (case invoke lib nvmlInit tr of (r1, tr1) \<Rightarrow>
        (case checkNvmlCall (status r1) of
           Inl e \<Rightarrow> (Inl e, tr1)
         | Inr _ \<Rightarrow>
            (case invoke lib (nvmlDeviceGetHandleByIndex index) tr1 of (r2, tr2) \<Rightarrow>
               (case checkNvmlCall (status r2) of
                  Inl e \<Rightarrow> (Inl e, tr2)
                | Inr _ \<Rightarrow> (Inr \<lparr>device = written None (map_option Some (out_handle r2))\<rparr>, tr2)))))"

text \<open>
  \<^verbatim>\<open>
  Device(cu::Device& device) {
    checkNvmlCall(nvmlInit());
    const std::string uuid = device.getUuid();
    nvmlDeviceGetHandleByUUID(uuid.c_str(), &device_);
  }
  \<close>
  \<^verbatim>\<open>cu::Device::getUuid\<close> belongs to cu.hpp; it is the parameter \<open>getUuid\<close>, which may raise
  a \<^verbatim>\<open>cu::Error\<close> and may issue native calls of its own. The constructor can therefore
  raise either kind of error.
\<close>

datatype thrown = Nvml nvml_Error | Cu cu_Error

definition Device_cu ::
  "library \<Rightarrow> (event list \<Rightarrow> (cu_Error + string) \<times> event list) \<Rightarrow> event list
     \<Rightarrow> (thrown + Device) \<times> event list" where
  "Device_cu lib getUuid tr =
     (case invoke lib nvmlInit tr of (r1, tr1) \<Rightarrow>
        (case checkNvmlCall (status r1) of
           Inl e \<Rightarrow> (Inl (Nvml e), tr1)
         | Inr _ \<Rightarrow>
            (case getUuid tr1 of
               (Inl e, tr2) \<Rightarrow> (Inl (Cu e), tr2)
             | (Inr uuid, tr2) \<Rightarrow>
                (case invoke lib (nvmlDeviceGetHandleByUUID (c_str uuid)) tr2 of (r3, tr3) \<Rightarrow>
                   (Inr \<lparr>device = written None (map_option Some (out_handle r3))\<rparr>, tr3)))))"

text \<open>
  \<^verbatim>\<open>~Device() { checkNvmlCall(nvmlShutdown()); }\<close>
  An error leaving a destructor ends the program; it is reported as \<open>Inl\<close> here.
\<close>

definition Device_dtor :: "library \<Rightarrow> Device \<Rightarrow> event list \<Rightarrow> (nvml_Error + unit) \<times> event list" where
  "Device_dtor lib d tr =
     (case invoke lib nvmlShutdown tr of (r, tr1) \<Rightarrow> (checkNvmlCall (status r), tr1))"

text \<open>
  \<^verbatim>\<open>
  void getFieldValues(int valuesCount, nvmlFieldValue_t* values) {
    checkNvmlCall(nvmlDeviceGetFieldValues(device_, valuesCount, values));
  }
  \<close>
  The caller's array \<open>values\<close> is returned as the call left it.
\<close>

definition getFieldValues ::
  "library \<Rightarrow> Device \<Rightarrow> int \<Rightarrow> nvmlFieldValue_t list \<Rightarrow> event list
     \<Rightarrow> (nvml_Error + nvmlFieldValue_t list) \<times> event list" where
  "getFieldValues lib d valuesCount values tr =
     (case invoke lib (nvmlDeviceGetFieldValues (device d) valuesCount) tr of (r, tr1) \<Rightarrow>
        (case checkNvmlCall (status r) of
           Inl e \<Rightarrow> (Inl e, tr1)
         | Inr _ \<Rightarrow> (Inr (poke values (out_values r)), tr1)))"


section \<open>nvrtc.hpp: the runtime-compilation program\<close>

text \<open>\<^verbatim>\<open>nvrtcProgram program{};\<close>: the null handle until a native call stores one.\<close>

record Program =
  program :: nvrtcProgram

text \<open>
  \<^verbatim>\<open>
  Program(const std::string &src, const std::string &name,
          const std::vector<std::string> &headers, const std::vector<std::string> &includeNames) {
    ... c_headers, c_includeNames: the c_str() of every element ...
    checkNvrtcCall(nvrtcCreateProgram(&program, src.c_str(), name.c_str(),
                                      static_cast<int>(c_headers.size()),
                                      c_headers.data(), c_includeNames.data()));
  }
  \<close>
\<close>

definition Program_src ::
  "library \<Rightarrow> string \<Rightarrow> string \<Rightarrow> string list \<Rightarrow> string list \<Rightarrow> event list
     \<Rightarrow> (nvrtc_Error + Program) \<times> event list" where
  "Program_src lib src name headers includeNames tr =
     (let c_headers = map c_str headers;
          c_includeNames = map c_str includeNames
      in case invoke lib (nvrtcCreateProgram (c_str src) (c_str name)
                            (static_cast_int (length c_headers)) c_headers c_includeNames) tr
         of (r, tr1) \<Rightarrow>
           (case checkNvrtcCall (status r) of
              Inl e \<Rightarrow> (Inl e, tr1)
            | Inr _ \<Rightarrow> (Inr \<lparr>program = written 0 (out_handle r)\<rparr>, tr1)))"

text \<open>
  \<^verbatim>\<open>
  explicit Program(const std::string &filename) {
    std::ifstream ifs(filename);
    std::string source(std::istreambuf_iterator<char>{ifs}, {});
    checkNvrtcCall(nvrtcCreateProgram(&program, source.c_str(), filename.c_str(), 0, nullptr, nullptr));
  }
  \<close>
  The stream is read through \<^verbatim>\<open>std::istreambuf_iterator\<close>, straight from the stream's
  buffer: nothing inspects the stream's state and nothing catches what the buffer throws.
  \<^item> A name that cannot be opened (no such file, no permission) leaves the buffer closed:
    it yields no character.
  \<^item> A name that opens and is read yields its contents.
  \<^item> A name that opens but whose read fails (a directory, an input/output error) makes
    the buffer of the GNU standard library throw \<^verbatim>\<open>std::ios_base::failure\<close>; the exception
    leaves the constructor before any native call.
  The file system maps a name to what opening it gives; \<open>None\<close> is a name that cannot be
  opened.
\<close>

datatype opened_file = Contents string | Read_error

datatype ios_base_failure = ios_base_failure

datatype Program_file_thrown = Ios ios_base_failure | Nvrtc nvrtc_Error

definition read_stream :: "(string \<rightharpoonup> opened_file) \<Rightarrow> string \<Rightarrow> ios_base_failure + string" where
  "read_stream fs filename =
     (case fs (c_str filename) of
        None \<Rightarrow> Inr []
      | Some (Contents contents) \<Rightarrow> Inr contents
      | Some Read_error \<Rightarrow> Inl ios_base_failure)"

definition Program_file ::
  "library \<Rightarrow> (string \<rightharpoonup> opened_file) \<Rightarrow> string \<Rightarrow> event list
     \<Rightarrow> (Program_file_thrown + Program) \<times> event list" where
  "Program_file lib fs filename tr =
     (case read_stream fs filename of
        Inl e \<Rightarrow> (Inl (Ios e), tr)
      | Inr source \<Rightarrow>
          (case invoke lib (nvrtcCreateProgram (c_str source) (c_str filename) 0 [] []) tr
           of (r, tr1) \<Rightarrow>
             (case checkNvrtcCall (status r) of
                Inl e \<Rightarrow> (Inl (Nvrtc e), tr1)
              | Inr _ \<Rightarrow> (Inr \<lparr>program = written 0 (out_handle r)\<rparr>, tr1))))"

text \<open>
  The source-text constructor with no headers, as the file-based one would see it: its
  errors among those of the file-based constructor.
\<close>

definition Program_of_text ::
  "library \<Rightarrow> string \<Rightarrow> string \<Rightarrow> event list \<Rightarrow> (Program_file_thrown + Program) \<times> event list" where
  "Program_of_text lib src name tr =
     (case Program_src lib src name [] [] tr of
        (Inl e, tr1) \<Rightarrow> (Inl (Nvrtc e), tr1)
      | (Inr p, tr1) \<Rightarrow> (Inr p, tr1))"

text \<open>
  \<^verbatim>\<open>~Program() { checkNvrtcCall(nvrtcDestroyProgram(&program)); }\<close>
\<close>

definition Program_dtor :: "library \<Rightarrow> Program \<Rightarrow> event list \<Rightarrow> (nvrtc_Error + unit) \<times> event list" where
  "Program_dtor lib p tr =
     (case invoke lib (nvrtcDestroyProgram (program p)) tr of (r, tr1) \<Rightarrow>
        (checkNvrtcCall (status r), tr1))"

text \<open>
  \<^verbatim>\<open>
  void compile(const std::vector<std::string> &options) {
    ... c_options: the c_str() of every option ...
    checkNvrtcCall(nvrtcCompileProgram(program, static_cast<int>(c_options.size()), c_options.data()));
  }
  \<close>
  The method assigns to no member: the object is the same before and after.
\<close>

definition compile ::
  "library \<Rightarrow> Program \<Rightarrow> string list \<Rightarrow> event list \<Rightarrow> (nvrtc_Error + unit) \<times> event list" where
  "compile lib p options tr =
     (let c_options = map c_str options
      in case invoke lib (nvrtcCompileProgram (program p)
                            (static_cast_int (length c_options)) c_options) tr
         of (r, tr1) \<Rightarrow> (checkNvrtcCall (status r), tr1))"

text \<open>
  \<^verbatim>\<open>
  std::string getPTX() {
    size_t size{};
    std::string ptx;
    checkNvrtcCall(nvrtcGetPTXSize(program, &size));
    ptx.resize(size);
    checkNvrtcCall(nvrtcGetPTX(program, &ptx[0]));
    return ptx;
  }
  \<close>
\<close>

definition getPTX :: "library \<Rightarrow> Program \<Rightarrow> event list \<Rightarrow> (nvrtc_Error + string) \<times> event list" where
  "getPTX lib p tr =
     (case invoke lib (nvrtcGetPTXSize (program p)) tr of (r1, tr1) \<Rightarrow>
        (case checkNvrtcCall (status r1) of
           Inl e \<Rightarrow> (Inl e, tr1)
         | Inr _ \<Rightarrow>
            (let size = written 0 (out_size r1);
                 ptx = resize (CHR 0x00) [] size
             in case invoke lib (nvrtcGetPTX (program p)) tr1 of (r2, tr2) \<Rightarrow>
                  (case checkNvrtcCall (status r2) of
                     Inl e \<Rightarrow> (Inl e, tr2)
                   | Inr _ \<Rightarrow> (Inr (poke ptx (out_bytes r2)), tr2)))))"

text \<open>
  \<^verbatim>\<open>
  std::vector<char> getCUBIN() {
    size_t size{};
    std::vector<char> cubin;
    checkNvrtcCall(nvrtcGetCUBINSize(program, &size));
    cubin.resize(size);
    checkNvrtcCall(nvrtcGetCUBIN(program, &cubin[0]));
    return cubin;
  }
  \<close>
  (compiled in when \<^verbatim>\<open>CUDA_VERSION >= 11020\<close>).
\<close>

definition getCUBIN :: "library \<Rightarrow> Program \<Rightarrow> event list \<Rightarrow> (nvrtc_Error + char list) \<times> event list" where
  "getCUBIN lib p tr =
     (case invoke lib (nvrtcGetCUBINSize (program p)) tr of (r1, tr1) \<Rightarrow>
        (case checkNvrtcCall (status r1) of
           Inl e \<Rightarrow> (Inl e, tr1)
         | Inr _ \<Rightarrow>
            (let size = written 0 (out_size r1);
                 cubin = resize (CHR 0x00) [] size
             in case invoke lib (nvrtcGetCUBIN (program p)) tr1 of (r2, tr2) \<Rightarrow>
                  (case checkNvrtcCall (status r2) of
                     Inl e \<Rightarrow> (Inl e, tr2)
                   | Inr _ \<Rightarrow> (Inr (poke cubin (out_bytes r2)), tr2)))))"

text \<open>
  \<^verbatim>\<open>
  std::string getLog() {
    size_t size{};
    std::string log;
    checkNvrtcCall(nvrtcGetProgramLogSize(program, &size));
    log.resize(size);
    checkNvrtcCall(nvrtcGetProgramLog(program, &log[0]));
    return log;
  }
  \<close>
\<close>

definition getLog :: "library \<Rightarrow> Program \<Rightarrow> event list \<Rightarrow> (nvrtc_Error + string) \<times> event list" where
  "getLog lib p tr =
     (case invoke lib (nvrtcGetProgramLogSize (program p)) tr of (r1, tr1) \<Rightarrow>
        (case checkNvrtcCall (status r1) of
           Inl e \<Rightarrow> (Inl e, tr1)
         | Inr _ \<Rightarrow>
            (let size = written 0 (out_size r1);
                 log = resize (CHR 0x00) [] size
             in case invoke lib (nvrtcGetProgramLog (program p)) tr1 of (r2, tr2) \<Rightarrow>
                  (case checkNvrtcCall (status r2) of
                     Inl e \<Rightarrow> (Inl e, tr2)
                   | Inr _ \<Rightarrow> (Inr (poke log (out_bytes r2)), tr2)))))"

text \<open>
  test_vector_add.cpp, the compile step of the test case:
  \<^verbatim>\<open>
  try {
    program.compile(options);
  } catch (nvrtc::Error &error) {
    std::cerr << program.getLog();
    throw;
  }
  \<close>
  The result is what leaves the statement, what was written to \<^verbatim>\<open>std::cerr\<close>, and the log
  of native calls.
\<close>

definition compile_or_report ::
  "library \<Rightarrow> Program \<Rightarrow> string list \<Rightarrow> event list
     \<Rightarrow> (nvrtc_Error + unit) \<times> string \<times> event list" where
  "compile_or_report lib p options tr =
     (case compile lib p options tr of
        (Inr u, tr1) \<Rightarrow> (Inr u, [], tr1)
      | (Inl error, tr1) \<Rightarrow>
          (case getLog lib p tr1 of
             (Inl e, tr2) \<Rightarrow> (Inl e, [], tr2)
           | (Inr log, tr2) \<Rightarrow> (Inl error, log, tr2)))"


section \<open>Acquired and released native resources\<close>

text \<open>
  The wrappers pair an acquiring native call, issued by a constructor, with a releasing
  one, issued by the destructor: \<^verbatim>\<open>nvmlInit\<close> with \<^verbatim>\<open>nvmlShutdown\<close>, \<^verbatim>\<open>nvrtcCreateProgram\<close>
  with \<^verbatim>\<open>nvrtcDestroyProgram\<close>. A call acquires or releases when it reports success.
  The balance of a log is the number of acquisitions not yet released.
\<close>

fun acquires :: "event \<Rightarrow> bool" where
  "acquires (nvmlInit, st) = (st = NVML_SUCCESS)"
| "acquires (nvrtcCreateProgram src name n hs is, st) = (st = NVRTC_SUCCESS)"
| "acquires (native_allocation ty sz fl, st) = (st = CUDA_SUCCESS)"
| "acquires _ = False"

fun releases :: "event \<Rightarrow> bool" where
  "releases (nvmlShutdown, st) = (st = NVML_SUCCESS)"
| "releases (nvrtcDestroyProgram h, st) = (st = NVRTC_SUCCESS)"
| "releases _ = False"

definition unreleased :: "event list \<Rightarrow> int" where
  "unreleased tr = int (length (filter acquires tr)) - int (length (filter releases tr))"


section \<open>The device-memory buffer of cu.hpp\<close>

record DeviceMemory =
  obj :: CUdeviceptr

text \<open>
  Modelled from the spec: the constructor of \<^verbatim>\<open>cu::DeviceMemory\<close>. cu.hpp is not among the
  sources; only its use in test_vector_add.cpp is, as
  \<^verbatim>\<open>cu::DeviceMemory(bytesize, type, flags)\<close> with the type defaulting to the
  device-resident one and the flags to 0. The specification: the constructor "accepts
  only a restricted subset of native memory-type tags (device-resident or
  unified/managed); passing a disallowed tag (e.g., array-backed or host-backed) raises an
  error before any native allocation call is attempted. Additionally, flag arguments are
  only accepted in combination with the unified/managed memory type; supplying flags
  together with the device-resident type raises an error." The specification does not say
  which status the raised error carries; the invalid-value status stands for it.
\<close>

definition DeviceMemory_ctor ::
  "library \<Rightarrow> nat \<Rightarrow> CUmemorytype \<Rightarrow> 32 word \<Rightarrow> event list
     \<Rightarrow> (cu_Error + DeviceMemory) \<times> event list" where
  "DeviceMemory_ctor lib bytesize type flags tr =
     (if type \<noteq> CU_MEMORYTYPE_DEVICE \<and> type \<noteq> CU_MEMORYTYPE_UNIFIED then
        (Inl (cu_Error CUDA_ERROR_INVALID_VALUE), tr)
      else if type = CU_MEMORYTYPE_DEVICE \<and> flags \<noteq> 0 then
        (Inl (cu_Error CUDA_ERROR_INVALID_VALUE), tr)
      else
        (case invoke lib (native_allocation type bytesize flags) tr of (r, tr1) \<Rightarrow>
           (if status r \<noteq> CUDA_SUCCESS then (Inl (cu_Error (status r)), tr1)
            else (Inr \<lparr>obj = written 0 (out_handle r)\<rparr>, tr1))))"


section \<open>Some libraries\<close>

definition answer :: "int \<Rightarrow> reply" where
  "answer st = \<lparr>status = st, out_handle = None, out_size = None, out_bytes = [], out_values = []\<rparr>"

text \<open>
  A telemetry library that initialises but finds no device: lookup by index reports
  \<^verbatim>\<open>NVML_ERROR_INVALID_ARGUMENT\<close> (2), lookup by identifier \<^verbatim>\<open>NVML_ERROR_NOT_FOUND\<close> (6).
\<close>

definition no_device :: library where
  "no_device tr c =
     (case c of
        nvmlDeviceGetHandleByIndex i \<Rightarrow> answer 2
      | nvmlDeviceGetHandleByUUID u \<Rightarrow> answer 6
      | _ \<Rightarrow> answer 0)"

text \<open>
  A compiler that hands out program 1, rejects every compilation with
  \<^verbatim>\<open>NVRTC_ERROR_COMPILATION\<close> (6), and has a three-character log, a two-character
  assembly text and a one-byte binary image, each NUL-terminated.
\<close>

definition rejecting_compiler :: library where
  "rejecting_compiler tr c =
     (case c of
        nvrtcCreateProgram src name n hs is \<Rightarrow> (answer 0)\<lparr>out_handle := Some 1\<rparr>
      | nvrtcCompileProgram h n opts \<Rightarrow> answer 6
      | nvrtcGetProgramLogSize h \<Rightarrow> (answer 0)\<lparr>out_size := Some 4\<rparr>
      | nvrtcGetProgramLog h \<Rightarrow> (answer 0)\<lparr>out_bytes := ''bad'' @ [CHR 0x00]\<rparr>
      | nvrtcGetPTXSize h \<Rightarrow> (answer 0)\<lparr>out_size := Some 3\<rparr>
      | nvrtcGetPTX h \<Rightarrow> (answer 0)\<lparr>out_bytes := ''//'' @ [CHR 0x00]\<rparr>
      | nvrtcGetCUBINSize h \<Rightarrow> (answer 0)\<lparr>out_size := Some 2\<rparr>
      | nvrtcGetCUBIN h \<Rightarrow> (answer 0)\<lparr>out_bytes := ''E'' @ [CHR 0x00]\<rparr>
      | _ \<Rightarrow> answer 0)"

text \<open>A driver whose allocations all succeed and return address 4096.\<close>

definition allocating_driver :: library where
  "allocating_driver tr c = (answer 0)\<lparr>out_handle := Some 4096\<rparr>"


section \<open>The size-then-fetch pattern\<close>

text \<open>
  The pattern in the specification's words: "a length-prefixed buffer is materialized by
  querying the size first, allocating a buffer of that size, then filling it". It is
  written once, for any pair of a size query and a fetch call, to compare the three
  query operations with.
\<close>

definition size_then_fetch ::
  "library \<Rightarrow> native_call \<Rightarrow> native_call \<Rightarrow> event list \<Rightarrow> (nvrtc_Error + char list) \<times> event list" where
  "size_then_fetch lib size_query fetch tr =
     (let r1 = lib tr size_query;
          tr1 = tr @ [(size_query, status r1)]
      in if status r1 \<noteq> NVRTC_SUCCESS then (Inl (nvrtc_Error (status r1)), tr1)
         else
           (let buffer = replicate (written 0 (out_size r1)) (CHR 0x00);
                r2 = lib tr1 fetch;
                tr2 = tr1 @ [(fetch, status r2)]
            in if status r2 \<noteq> NVRTC_SUCCESS then (Inl (nvrtc_Error (status r2)), tr2)
               else (Inr (poke buffer (out_bytes r2)), tr2)))"


section \<open>Facts about the helpers\<close>

lemma static_cast_int_0: "static_cast_int 0 = 0"
  by (simp add: static_cast_int_def)

lemma length_poke: "length (poke buf ws) = length buf"
  by (simp add: poke_def)

lemma length_resize: "length (resize z xs n) = n"
  by (simp add: resize_def)

section \<open>The check functions\<close>

text \<open>
  Claim C1. For every status code passed to \<^verbatim>\<open>checkNvrtcCall\<close> and \<^verbatim>\<open>checkNvmlCall\<close>: on the
  success code the function returns normally (it has no state to change); on any other
  code it raises an error object whose embedded code, read back through the conversion
  operator, is the input code, and whose message is what the vendor's string-lookup
  function gives for that code. (For the runtime-compilation error the body of \<open>what\<close>
  is the one taken from the specification.)
\<close>

theorem check_call_raises_exact_code:
  "checkNvrtcCall NVRTC_SUCCESS = Inr () \<and>
   checkNvmlCall NVML_SUCCESS = Inr () \<and>
   (r \<noteq> NVRTC_SUCCESS \<longrightarrow>
      (\<exists>e. checkNvrtcCall r = Inl e \<and> operator_nvrtcResult e = r \<and>
           nvrtc_what nvrtcGetErrorString e = nvrtcGetErrorString r)) \<and>
   (s \<noteq> NVML_SUCCESS \<longrightarrow>
      (\<exists>e. checkNvmlCall s = Inl e \<and> operator_nvmlReturn_t e = s \<and>
           nvml_what nvmlErrorString e = nvmlErrorString s))"
  by (simp add: checkNvrtcCall_def checkNvmlCall_def operator_nvrtcResult_def
      operator_nvmlReturn_t_def nvrtc_what_def nvml_what_def)

text \<open>
  The compilation-failure status 6 and the invalid-argument status 2, with lookup functions
  that name them.
\<close>

theorem check_call_raises_exact_code_witness:
  "(6::int) \<noteq> NVRTC_SUCCESS \<and> (2::int) \<noteq> NVML_SUCCESS \<and>
   (\<exists>e. checkNvrtcCall 6 = Inl e \<and> operator_nvrtcResult e = 6 \<and>
        nvrtc_what (\<lambda>r. if r = 6 then ''NVRTC_ERROR_COMPILATION'' else ''?'') e = ''NVRTC_ERROR_COMPILATION'') \<and>
   (\<exists>e. checkNvmlCall 2 = Inl e \<and> operator_nvmlReturn_t e = 2 \<and>
        nvml_what (\<lambda>r. if r = 2 then ''Invalid Argument'' else ''?'') e = ''Invalid Argument'')"
  using check_call_raises_exact_code [of 6 "\<lambda>r. if r = 6 then ''NVRTC_ERROR_COMPILATION'' else ''?''" 2
      "\<lambda>r. if r = 2 then ''Invalid Argument'' else ''?''"]
  by (simp add: NVRTC_SUCCESS_def NVML_SUCCESS_def)

section \<open>Which native statuses are checked\<close>

text \<open>
  Claim C2. Every native status is passed through the check function, the lookup by
  identifier in the constructor \<^verbatim>\<open>Device(cu::Device&)\<close> included. The constructor does
  not do that: with a library whose \<^verbatim>\<open>nvmlDeviceGetHandleByUUID\<close> reports status 6 (not
  found), construction returns normally, the log holds the non-success status, and the
  member \<open>device\<close> is still indeterminate.
\<close>

theorem Device_cu_discards_lookup_status:
  "Device_cu no_device (\<lambda>tr. (Inr ''GPU-0'', tr)) [] =
     (Inr \<lparr>device = None\<rparr>, [(nvmlInit, 0), (nvmlDeviceGetHandleByUUID ''GPU-0'', 6)])"
  by (simp add: Device_cu_def invoke_def no_device_def answer_def checkNvmlCall_def
      NVML_SUCCESS_def written_def c_str_def)

text \<open>
  It is so for every library: once initialisation succeeded and the identifier was read,
  the constructor returns an object whatever status the lookup reports.
\<close>

lemma Device_cu_never_raises_on_lookup:
  assumes "status (lib tr nvmlInit) = NVML_SUCCESS"
    and "getUuid (tr @ [(nvmlInit, NVML_SUCCESS)]) = (Inr uuid, tr2)"
  shows "\<exists>d. Device_cu lib getUuid tr =
           (Inr d, tr2 @ [(nvmlDeviceGetHandleByUUID (c_str uuid),
                           status (lib tr2 (nvmlDeviceGetHandleByUUID (c_str uuid))))])"
  using assms by (simp add: Device_cu_def invoke_def checkNvmlCall_def Let_def)

text \<open>
  The sibling constructor \<^verbatim>\<open>Device(int)\<close> does check its lookup: it returns normally only
  when both of its native calls reported success.
\<close>

lemma Device_int_checks_every_status:
  assumes "Device_int lib index tr = (Inr d, tr')"
  shows "tr' = tr @ [(nvmlInit, NVML_SUCCESS), (nvmlDeviceGetHandleByIndex index, NVML_SUCCESS)]"
  using assms
  by (auto simp: Device_int_def invoke_def checkNvmlCall_def Let_def split: if_splits)

text \<open>So does the field query.\<close>

lemma getFieldValues_checks_status:
  assumes "getFieldValues lib d valuesCount values tr = (Inr values', tr')"
  shows "tr' = tr @ [(nvmlDeviceGetFieldValues (device d) valuesCount, NVML_SUCCESS)]"
  using assms
  by (auto simp: getFieldValues_def invoke_def checkNvmlCall_def Let_def split: if_splits)


section \<open>Construction failure and acquired resources\<close>

text \<open>
  Claim C3. A construction-time failure raises and leaves no acquired native resource
  behind; in particular for \<^verbatim>\<open>Device(int)\<close> when the lookup fails after a successful
  initialisation. The constructor raises there, so no object exists and \<^verbatim>\<open>~Device\<close>, the
  only place that issues \<^verbatim>\<open>nvmlShutdown\<close>, never runs: the log ends with one successful
  \<^verbatim>\<open>nvmlInit\<close> that nothing releases.
\<close>

theorem Device_int_leaks_initialisation:
  "Device_int no_device 0 [] =
     (Inl (nvml_Error 2), [(nvmlInit, 0), (nvmlDeviceGetHandleByIndex 0, 2)]) \<and>
   unreleased [] = 0 \<and>
   unreleased [(nvmlInit, 0), (nvmlDeviceGetHandleByIndex 0, 2)] = 1"
  by (simp add: Device_int_def invoke_def no_device_def answer_def checkNvmlCall_def
      NVML_SUCCESS_def unreleased_def)

text \<open>And for every library whose lookup fails after a successful initialisation.\<close>

lemma Device_int_lookup_failure_leaks:
  assumes "status (lib tr nvmlInit) = NVML_SUCCESS"
    and "status (lib (tr @ [(nvmlInit, NVML_SUCCESS)]) (nvmlDeviceGetHandleByIndex index)) = r"
    and "r \<noteq> NVML_SUCCESS"
  shows "\<exists>tr'. Device_int lib index tr = (Inl (nvml_Error r), tr') \<and>
           unreleased tr' = unreleased tr + 1"
  using assms
  by (auto simp: Device_int_def invoke_def checkNvmlCall_def Let_def unreleased_def)

text \<open>
  The program constructors issue one native call, so their failure acquires nothing; and
  a program or a telemetry device that is constructed and then destroyed leaves the
  balance as it was.
\<close>

lemma unreleased_append: "unreleased (tr @ tr') = unreleased tr + unreleased tr'"
  by (simp add: unreleased_def)

lemma Program_src_failure_acquires_nothing:
  assumes "Program_src lib src name headers includeNames tr = (Inl e, tr')"
  shows "unreleased tr' = unreleased tr"
  using assms
  by (auto simp: Program_src_def invoke_def checkNvrtcCall_def Let_def unreleased_def
      split: if_splits)

lemma Program_file_failure_acquires_nothing:
  assumes "Program_file lib fs filename tr = (Inl e, tr')"
  shows "unreleased tr' = unreleased tr"
  using assms
  by (auto simp: Program_file_def invoke_def checkNvrtcCall_def Let_def unreleased_def
      split: if_splits sum.splits)

lemma Program_src_lifecycle:
  "Program_src lib src name headers includeNames tr = (Inr p, tr1) \<Longrightarrow>
   Program_dtor lib p tr1 = (Inr (), tr2) \<Longrightarrow> unreleased tr2 = unreleased tr"
  by (auto simp: Program_src_def Program_dtor_def invoke_def checkNvrtcCall_def Let_def
      unreleased_def split: if_splits)

lemma Device_int_lifecycle:
  "Device_int lib index tr = (Inr d, tr1) \<Longrightarrow> Device_dtor lib d tr1 = (Inr (), tr2)
     \<Longrightarrow> unreleased tr2 = unreleased tr"
  by (auto simp: Device_int_def Device_dtor_def invoke_def checkNvmlCall_def Let_def unreleased_def
      split: if_splits)


section \<open>The three query operations\<close>

lemma getPTX_pattern:
  "getPTX lib p tr = size_then_fetch lib (nvrtcGetPTXSize (program p)) (nvrtcGetPTX (program p)) tr"
  by (simp add: getPTX_def size_then_fetch_def invoke_def checkNvrtcCall_def resize_def Let_def)

lemma getCUBIN_pattern:
  "getCUBIN lib p tr = size_then_fetch lib (nvrtcGetCUBINSize (program p)) (nvrtcGetCUBIN (program p)) tr"
  by (simp add: getCUBIN_def size_then_fetch_def invoke_def checkNvrtcCall_def resize_def Let_def)

lemma getLog_pattern:
  "getLog lib p tr = size_then_fetch lib (nvrtcGetProgramLogSize (program p)) (nvrtcGetProgramLog (program p)) tr"
  by (simp add: getLog_def size_then_fetch_def invoke_def checkNvrtcCall_def resize_def Let_def)

lemma size_then_fetch_Inr:
  assumes "size_then_fetch lib q f tr = (Inr v, tr')"
  shows "tr' = tr @ [(q, NVRTC_SUCCESS), (f, NVRTC_SUCCESS)] \<and>
         length v = written 0 (out_size (lib tr q))"
  using assms
  by (auto simp: size_then_fetch_def Let_def length_poke split: if_splits)

text \<open>
  Claim C5. Each of \<^verbatim>\<open>getPTX\<close>, \<^verbatim>\<open>getCUBIN\<close> and \<^verbatim>\<open>getLog\<close> is the size-then-fetch
  pattern, on its own pair of native calls: the size is queried first, a buffer of that
  size is made, the second call fills it. When the operation returns, exactly those two
  calls were issued, in that order, both reporting success, and the length of the
  returned value is the size that the first call stored.
\<close>

theorem queries_size_then_fetch:
  "getPTX lib p tr = size_then_fetch lib (nvrtcGetPTXSize (program p)) (nvrtcGetPTX (program p)) tr \<and>
   getCUBIN lib p tr = size_then_fetch lib (nvrtcGetCUBINSize (program p)) (nvrtcGetCUBIN (program p)) tr \<and>
   getLog lib p tr = size_then_fetch lib (nvrtcGetProgramLogSize (program p)) (nvrtcGetProgramLog (program p)) tr \<and>
   (getPTX lib p tr = (Inr ptx, tr1) \<longrightarrow>
      tr1 = tr @ [(nvrtcGetPTXSize (program p), NVRTC_SUCCESS), (nvrtcGetPTX (program p), NVRTC_SUCCESS)] \<and>
      length ptx = written 0 (out_size (lib tr (nvrtcGetPTXSize (program p))))) \<and>
   (getCUBIN lib p tr = (Inr cubin, tr2) \<longrightarrow>
      tr2 = tr @ [(nvrtcGetCUBINSize (program p), NVRTC_SUCCESS), (nvrtcGetCUBIN (program p), NVRTC_SUCCESS)] \<and>
      length cubin = written 0 (out_size (lib tr (nvrtcGetCUBINSize (program p))))) \<and>
   (getLog lib p tr = (Inr log, tr3) \<longrightarrow>
      tr3 = tr @ [(nvrtcGetProgramLogSize (program p), NVRTC_SUCCESS), (nvrtcGetProgramLog (program p), NVRTC_SUCCESS)] \<and>
      length log = written 0 (out_size (lib tr (nvrtcGetProgramLogSize (program p)))))"
proof -
  have "size_then_fetch lib q f tr = (Inr v, tr') \<longrightarrow>
          tr' = tr @ [(q, NVRTC_SUCCESS), (f, NVRTC_SUCCESS)] \<and>
          length v = written 0 (out_size (lib tr q))" for q f v tr'
    using size_then_fetch_Inr [of lib q f tr v tr'] by (rule impI)
  then show ?thesis
    unfolding getPTX_pattern getCUBIN_pattern getLog_pattern
    by (intro conjI refl)
qed

text \<open>The three operations on program 1 of the rejecting compiler.\<close>

theorem queries_size_then_fetch_witness:
  "getPTX rejecting_compiler \<lparr>program = 1\<rparr> [] =
     (Inr (''//'' @ [CHR 0x00]), [(nvrtcGetPTXSize 1, 0), (nvrtcGetPTX 1, 0)]) \<and>
   getCUBIN rejecting_compiler \<lparr>program = 1\<rparr> [] =
     (Inr (''E'' @ [CHR 0x00]), [(nvrtcGetCUBINSize 1, 0), (nvrtcGetCUBIN 1, 0)]) \<and>
   getLog rejecting_compiler \<lparr>program = 1\<rparr> [] =
     (Inr (''bad'' @ [CHR 0x00]), [(nvrtcGetProgramLogSize 1, 0), (nvrtcGetProgramLog 1, 0)]) \<and>
   length (''//'' @ [CHR 0x00]) = written 0 (out_size (rejecting_compiler [] (nvrtcGetPTXSize 1))) \<and>
   length (''E'' @ [CHR 0x00]) = written 0 (out_size (rejecting_compiler [] (nvrtcGetCUBINSize 1))) \<and>
   length (''bad'' @ [CHR 0x00]) = written 0 (out_size (rejecting_compiler [] (nvrtcGetProgramLogSize 1)))"
proof -
  have p: "getPTX rejecting_compiler \<lparr>program = 1\<rparr> [] =
     (Inr (''//'' @ [CHR 0x00]), [(nvrtcGetPTXSize 1, 0), (nvrtcGetPTX 1, 0)])"
    by (simp add: getPTX_def invoke_def rejecting_compiler_def answer_def checkNvrtcCall_def
        NVRTC_SUCCESS_def written_def resize_def poke_def)
  have c: "getCUBIN rejecting_compiler \<lparr>program = 1\<rparr> [] =
     (Inr (''E'' @ [CHR 0x00]), [(nvrtcGetCUBINSize 1, 0), (nvrtcGetCUBIN 1, 0)])"
    by (simp add: getCUBIN_def invoke_def rejecting_compiler_def answer_def checkNvrtcCall_def
        NVRTC_SUCCESS_def written_def resize_def poke_def)
  have l: "getLog rejecting_compiler \<lparr>program = 1\<rparr> [] =
     (Inr (''bad'' @ [CHR 0x00]), [(nvrtcGetProgramLogSize 1, 0), (nvrtcGetProgramLog 1, 0)])"
    by (simp add: getLog_def invoke_def rejecting_compiler_def answer_def checkNvrtcCall_def
        NVRTC_SUCCESS_def written_def resize_def poke_def)
  note t = queries_size_then_fetch [of rejecting_compiler "\<lparr>program = 1\<rparr>" "[]" "''//'' @ [CHR 0x00]"
        "[(nvrtcGetPTXSize 1, 0), (nvrtcGetPTX 1, 0)]" "''E'' @ [CHR 0x00]"
        "[(nvrtcGetCUBINSize 1, 0), (nvrtcGetCUBIN 1, 0)]" "''bad'' @ [CHR 0x00]"
        "[(nvrtcGetProgramLogSize 1, 0), (nvrtcGetProgramLog 1, 0)]"]
  note i1 = t [THEN conjunct2, THEN conjunct2, THEN conjunct2, THEN conjunct1, THEN mp, OF p,
      THEN conjunct2]
  note i2 = t [THEN conjunct2, THEN conjunct2, THEN conjunct2, THEN conjunct2, THEN conjunct1,
      THEN mp, OF c, THEN conjunct2]
  note i3 = t [THEN conjunct2, THEN conjunct2, THEN conjunct2, THEN conjunct2, THEN conjunct2,
      THEN mp, OF l, THEN conjunct2]
  have sel: "program \<lparr>program = 1\<rparr> = 1"
    by simp
  show ?thesis
    using p c l i1 [unfolded sel] i2 [unfolded sel] i3 [unfolded sel] by (intro conjI)
qed


section \<open>Compilation failure\<close>

text \<open>
  Claim C4. If the native compile call reports a non-success status \<open>r\<close>, \<^verbatim>\<open>compile\<close>
  raises an error carrying \<open>r\<close>, having issued that one native call and nothing else (no
  destroy): the program object and its handle are as before. The log query on the same
  object afterwards goes to the native library with that handle, and when its two native
  calls report success it returns the log; the test's catch block then writes that log and
  rethrows the original error.
\<close>

theorem compile_failure_keeps_log_retrievable:
  fixes lib :: library and p :: Program and options :: "string list" and tr :: "event list"
    and r :: nvrtcResult
  defines c: "c \<equiv> nvrtcCompileProgram (program p) (static_cast_int (length options)) (map c_str options)"
  defines tr1: "tr1 \<equiv> tr @ [(c, r)]"
  defines r1: "r1 \<equiv> lib tr1 (nvrtcGetProgramLogSize (program p))"
  defines r2: "r2 \<equiv> lib (tr1 @ [(nvrtcGetProgramLogSize (program p), status r1)]) (nvrtcGetProgramLog (program p))"
  assumes r: "status (lib tr c) = r" "r \<noteq> NVRTC_SUCCESS"
  shows "compile lib p options tr = (Inl (nvrtc_Error r), tr1) \<and>
         operator_nvrtcResult (nvrtc_Error r) = r \<and>
         (status r1 = NVRTC_SUCCESS \<and> status r2 = NVRTC_SUCCESS \<longrightarrow>
            (\<exists>log tr2.
               getLog lib p tr1 = (Inr log, tr2) \<and>
               log = poke (replicate (written 0 (out_size r1)) (CHR 0x00)) (out_bytes r2) \<and>
               tr2 = tr1 @ [(nvrtcGetProgramLogSize (program p), NVRTC_SUCCESS),
                            (nvrtcGetProgramLog (program p), NVRTC_SUCCESS)] \<and>
               compile_or_report lib p options tr = (Inl (nvrtc_Error r), log, tr2)))"
proof -
  have comp: "compile lib p options tr = (Inl (nvrtc_Error r), tr1)"
    using c r tr1 by (simp add: compile_def invoke_def checkNvrtcCall_def Let_def)
  have conv: "operator_nvrtcResult (nvrtc_Error r) = r"
    by (simp add: operator_nvrtcResult_def)
  have log: "getLog lib p tr1 =
      (Inr (poke (replicate (written 0 (out_size r1)) (CHR 0x00)) (out_bytes r2)),
       tr1 @ [(nvrtcGetProgramLogSize (program p), NVRTC_SUCCESS),
              (nvrtcGetProgramLog (program p), NVRTC_SUCCESS)])"
    if "status r1 = NVRTC_SUCCESS" "status r2 = NVRTC_SUCCESS"
    using that r1 r2
    by (simp add: getLog_def invoke_def checkNvrtcCall_def Let_def resize_def)
  have rep: "compile_or_report lib p options tr =
      (Inl (nvrtc_Error r), poke (replicate (written 0 (out_size r1)) (CHR 0x00)) (out_bytes r2),
       tr1 @ [(nvrtcGetProgramLogSize (program p), NVRTC_SUCCESS),
              (nvrtcGetProgramLog (program p), NVRTC_SUCCESS)])"
    if "status r1 = NVRTC_SUCCESS" "status r2 = NVRTC_SUCCESS"
    using log [OF that] comp by (simp add: compile_or_report_def)
  show ?thesis
    using comp conv log rep by blast
qed

text \<open>Program 1 of the rejecting compiler, compiled with no option.\<close>

theorem compile_failure_keeps_log_retrievable_witness:
  "compile rejecting_compiler \<lparr>program = 1\<rparr> [] [] =
     (Inl (nvrtc_Error 6), [(nvrtcCompileProgram 1 0 [], 6)]) \<and>
   getLog rejecting_compiler \<lparr>program = 1\<rparr> [(nvrtcCompileProgram 1 0 [], 6)] =
     (Inr (''bad'' @ [CHR 0x00]),
      [(nvrtcCompileProgram 1 0 [], 6), (nvrtcGetProgramLogSize 1, 0), (nvrtcGetProgramLog 1, 0)]) \<and>
   compile_or_report rejecting_compiler \<lparr>program = 1\<rparr> [] [] =
     (Inl (nvrtc_Error 6), ''bad'' @ [CHR 0x00],
      [(nvrtcCompileProgram 1 0 [], 6), (nvrtcGetProgramLogSize 1, 0), (nvrtcGetProgramLog 1, 0)])"
proof -
  let ?p = "\<lparr>program = 1\<rparr>"
  let ?c = "nvrtcCompileProgram (program ?p) (static_cast_int (length ([] :: string list))) (map c_str [])"
  let ?tr1 = "[] @ [(?c, 6 :: int)]"
  let ?r1 = "rejecting_compiler ?tr1 (nvrtcGetProgramLogSize (program ?p))"
  let ?r2 = "rejecting_compiler (?tr1 @ [(nvrtcGetProgramLogSize (program ?p), status ?r1)])
               (nvrtcGetProgramLog (program ?p))"
  have h1: "status (rejecting_compiler [] ?c) = 6"
    by (simp add: rejecting_compiler_def answer_def)
  have h2: "(6 :: int) \<noteq> NVRTC_SUCCESS"
    by (simp add: NVRTC_SUCCESS_def)
  have s: "status ?r1 = NVRTC_SUCCESS \<and> status ?r2 = NVRTC_SUCCESS"
    by (simp add: rejecting_compiler_def answer_def NVRTC_SUCCESS_def)
  note t = compile_failure_keeps_log_retrievable
    [where lib = rejecting_compiler and p = "\<lparr>program = 1\<rparr>" and options = "[]" and tr = "[]"
       and r = 6, OF h1 h2]
  have c0: "?c = nvrtcCompileProgram 1 0 []"
    by (simp add: static_cast_int_def)
  have b: "poke (replicate (written 0 (out_size ?r1)) (CHR 0x00)) (out_bytes ?r2) = ''bad'' @ [CHR 0x00]"
    by (simp add: rejecting_compiler_def answer_def written_def poke_def)
  from t [THEN conjunct2, THEN conjunct2, THEN mp, OF s]
  have g: "getLog rejecting_compiler ?p ?tr1 =
             (Inr (''bad'' @ [CHR 0x00]),
              ?tr1 @ [(nvrtcGetProgramLogSize (program ?p), NVRTC_SUCCESS),
                      (nvrtcGetProgramLog (program ?p), NVRTC_SUCCESS)])"
    and q: "compile_or_report rejecting_compiler ?p [] [] =
             (Inl (nvrtc_Error 6), ''bad'' @ [CHR 0x00],
              ?tr1 @ [(nvrtcGetProgramLogSize (program ?p), NVRTC_SUCCESS),
                      (nvrtcGetProgramLog (program ?p), NVRTC_SUCCESS)])"
    unfolding b by blast+
  show ?thesis
    using t [THEN conjunct1] g q unfolding c0
    by (simp add: NVRTC_SUCCESS_def)
qed


section \<open>The file-based constructor\<close>

text \<open>
  Claim C10, as stated: for every file name, the constructor raises no error when the
  named file is missing or unreadable. It does raise for a name that opens but cannot be
  read: with a directory, the read throws \<^verbatim>\<open>std::ios_base::failure\<close> and no native call is
  issued, although the compiler would have created the program.
\<close>

theorem Program_file_unreadable_raises:
  "Program_file rejecting_compiler [''/tmp'' \<mapsto> Read_error] ''/tmp'' [] =
     (Inl (Ios ios_base_failure), []) \<and>
   Program_file rejecting_compiler Map.empty ''/tmp'' [] =
     (Inr \<lparr>program = 1\<rparr>, [(nvrtcCreateProgram [] ''/tmp'' 0 [] [], 0)])"
  by (simp add: Program_file_def read_stream_def c_str_def invoke_def rejecting_compiler_def
      answer_def checkNvrtcCall_def NVRTC_SUCCESS_def written_def)

text \<open>
  Claim C10, amended. The constructor creates the program from whatever the stream
  yields, with the file name as the program's name and no headers. When the named file
  cannot be opened, that is the empty text: nothing about the file is reported, the
  constructor behaves exactly as the source-text constructor on the empty text, and it
  raises only if the native create call reports a non-success status. When the file opens
  and is read, it behaves as the source-text constructor on the file's contents.
\<close>

theorem Program_file_missing_file:
  fixes lib :: library and fs :: "string \<rightharpoonup> opened_file" and filename :: string
    and tr :: "event list"
  defines "c \<equiv> nvrtcCreateProgram [] (c_str filename) 0 [] []"
  shows "(fs (c_str filename) = None \<longrightarrow>
            Program_file lib fs filename tr =
              (if status (lib tr c) = NVRTC_SUCCESS
               then Inr \<lparr>program = written 0 (out_handle (lib tr c))\<rparr>
               else Inl (Nvrtc (nvrtc_Error (status (lib tr c)))),
               tr @ [(c, status (lib tr c))]) \<and>
            Program_file lib fs filename tr = Program_of_text lib [] filename tr) \<and>
         (fs (c_str filename) = Some (Contents contents) \<longrightarrow>
            Program_file lib fs filename tr = Program_of_text lib contents filename tr \<and>
            (\<exists>r. snd (Program_file lib fs filename tr) =
                   tr @ [(nvrtcCreateProgram (c_str contents) (c_str filename) 0 [] [], r)]))"
proof -
  have z: "static_cast_int 0 = 0"
    by (simp add: static_cast_int_def)
  have missing: "Program_file lib fs filename tr =
              (if status (lib tr c) = NVRTC_SUCCESS
               then Inr \<lparr>program = written 0 (out_handle (lib tr c))\<rparr>
               else Inl (Nvrtc (nvrtc_Error (status (lib tr c)))),
               tr @ [(c, status (lib tr c))])"
    if "fs (c_str filename) = None"
    using that
    by (simp add: Program_file_def read_stream_def invoke_def checkNvrtcCall_def Let_def
        c_def c_str_def)
  have missing_text: "Program_file lib fs filename tr = Program_of_text lib [] filename tr"
    if "fs (c_str filename) = None"
    using that
    by (simp add: Program_file_def Program_of_text_def Program_src_def read_stream_def invoke_def
        checkNvrtcCall_def Let_def c_str_def z)
  have readable: "Program_file lib fs filename tr = Program_of_text lib contents filename tr"
    if "fs (c_str filename) = Some (Contents contents)"
    using that
    by (simp add: Program_file_def Program_of_text_def Program_src_def read_stream_def invoke_def
        checkNvrtcCall_def Let_def z)
  have readable_call: "\<exists>r. snd (Program_file lib fs filename tr) =
                   tr @ [(nvrtcCreateProgram (c_str contents) (c_str filename) 0 [] [], r)]"
    if "fs (c_str filename) = Some (Contents contents)"
    using that
    by (simp add: Program_file_def read_stream_def invoke_def checkNvrtcCall_def Let_def)
  show ?thesis
    using missing missing_text readable readable_call by blast
qed

text \<open>
  A file system with no file at all, and one whose only file holds a one-line kernel.
\<close>

theorem Program_file_missing_file_witness:
  "Map.empty (c_str ''missing.cu'') = (None :: opened_file option) \<and>
   Program_file rejecting_compiler Map.empty ''missing.cu'' [] =
     (Inr \<lparr>program = 1\<rparr>, [(nvrtcCreateProgram [] ''missing.cu'' 0 [] [], 0)]) \<and>
   [''k.cu'' \<mapsto> Contents ''int x;''] (c_str ''k.cu'') = Some (Contents ''int x;'') \<and>
   Program_file rejecting_compiler [''k.cu'' \<mapsto> Contents ''int x;''] ''k.cu'' [] =
     Program_of_text rejecting_compiler ''int x;'' ''k.cu'' [] \<and>
   Program_of_text rejecting_compiler ''int x;'' ''k.cu'' [] =
     (Inr \<lparr>program = 1\<rparr>, [(nvrtcCreateProgram ''int x;'' ''k.cu'' 0 [] [], 0)])"
proof -
  have m: "Map.empty (c_str ''missing.cu'') = (None :: opened_file option)"
    by simp
  have n: "c_str ''missing.cu'' = ''missing.cu''"
    by (simp add: c_str_def)
  have s: "status (rejecting_compiler [] (nvrtcCreateProgram [] ''missing.cu'' 0 [] [])) = NVRTC_SUCCESS"
    by (simp add: rejecting_compiler_def answer_def NVRTC_SUCCESS_def)
  have h: "written 0 (out_handle (rejecting_compiler [] (nvrtcCreateProgram [] ''missing.cu'' 0 [] []))) = 1"
    by (simp add: rejecting_compiler_def answer_def written_def)
  note t1 = Program_file_missing_file [where lib = rejecting_compiler and fs = Map.empty
      and filename = "''missing.cu''" and tr = "[]", THEN conjunct1, THEN mp, OF m, THEN conjunct1]
  have w1: "Program_file rejecting_compiler Map.empty ''missing.cu'' [] =
     (Inr \<lparr>program = 1\<rparr>, [(nvrtcCreateProgram [] ''missing.cu'' 0 [] [], 0)])"
    using t1 unfolding n by (simp add: s h NVRTC_SUCCESS_def)
  have k: "[''k.cu'' \<mapsto> Contents ''int x;''] (c_str ''k.cu'') = Some (Contents ''int x;'')"
    by (simp add: c_str_def)
  note t2 = Program_file_missing_file [where lib = rejecting_compiler
      and fs = "[''k.cu'' \<mapsto> Contents ''int x;'']" and filename = "''k.cu''" and tr = "[]"
      and contents = "''int x;''", THEN conjunct2, THEN mp, OF k, THEN conjunct1]
  have w2: "Program_of_text rejecting_compiler ''int x;'' ''k.cu'' [] =
     (Inr \<lparr>program = 1\<rparr>, [(nvrtcCreateProgram ''int x;'' ''k.cu'' 0 [] [], 0)])"
    by (simp add: Program_of_text_def Program_src_def c_str_def static_cast_int_def invoke_def
        rejecting_compiler_def answer_def checkNvrtcCall_def NVRTC_SUCCESS_def written_def)
  show ?thesis
    using m w1 k t2 w2 by (intro conjI)
qed


section \<open>The device-memory typing policy\<close>

text \<open>
  Claim C6. Constructing a device-memory buffer with the array-backed or the host-backed
  memory type raises an error, and the log of native calls is unchanged: no native call,
  hence no allocation, was issued.
\<close>

theorem DeviceMemory_rejects_disallowed_type:
  assumes "type = CU_MEMORYTYPE_ARRAY \<or> type = CU_MEMORYTYPE_HOST"
  shows "\<exists>e. DeviceMemory_ctor lib bytesize type flags tr = (Inl e, tr)"
  using assms by (auto simp: DeviceMemory_ctor_def)

text \<open>Both disallowed types, on a driver that would have allocated.\<close>

theorem DeviceMemory_rejects_disallowed_type_witness:
  "(CU_MEMORYTYPE_ARRAY = CU_MEMORYTYPE_ARRAY \<or> CU_MEMORYTYPE_ARRAY = CU_MEMORYTYPE_HOST) \<and>
   (\<exists>e. DeviceMemory_ctor allocating_driver 4096 CU_MEMORYTYPE_ARRAY 0 [] = (Inl e, [])) \<and>
   (\<exists>e. DeviceMemory_ctor allocating_driver 4096 CU_MEMORYTYPE_HOST 0 [] = (Inl e, []))"
proof -
  have a: "CU_MEMORYTYPE_ARRAY = CU_MEMORYTYPE_ARRAY \<or> CU_MEMORYTYPE_ARRAY = CU_MEMORYTYPE_HOST"
    by simp
  have h: "CU_MEMORYTYPE_HOST = CU_MEMORYTYPE_ARRAY \<or> CU_MEMORYTYPE_HOST = CU_MEMORYTYPE_HOST"
    by simp
  show ?thesis
    using a DeviceMemory_rejects_disallowed_type [OF a, where lib = allocating_driver and bytesize = 4096
        and flags = 0 and tr = "[]"]
      DeviceMemory_rejects_disallowed_type [OF h, where lib = allocating_driver and bytesize = 4096
        and flags = 0 and tr = "[]"]
    by (intro conjI)
qed

text \<open>
  Claim C7. Flags are accepted only with the unified/managed type: with the
  device-resident type and zero flags the constructor goes on to the native allocation and
  succeeds when that does; with the device-resident type and any non-zero flag it raises
  without a native call; with the unified/managed type and the host-attach or the
  global-attach flag it goes on to the native allocation and succeeds when that does.
\<close>

theorem DeviceMemory_flags_policy:
  "(status (lib tr (native_allocation CU_MEMORYTYPE_DEVICE bytesize 0)) = CUDA_SUCCESS \<longrightarrow>
      (\<exists>m. DeviceMemory_ctor lib bytesize CU_MEMORYTYPE_DEVICE 0 tr =
             (Inr m, tr @ [(native_allocation CU_MEMORYTYPE_DEVICE bytesize 0, CUDA_SUCCESS)]))) \<and>
   (flags \<noteq> 0 \<longrightarrow>
      (\<exists>e. DeviceMemory_ctor lib bytesize CU_MEMORYTYPE_DEVICE flags tr = (Inl e, tr))) \<and>
   ((attach = CU_MEM_ATTACH_HOST \<or> attach = CU_MEM_ATTACH_GLOBAL) \<and>
    status (lib tr (native_allocation CU_MEMORYTYPE_UNIFIED bytesize attach)) = CUDA_SUCCESS \<longrightarrow>
      (\<exists>m. DeviceMemory_ctor lib bytesize CU_MEMORYTYPE_UNIFIED attach tr =
             (Inr m, tr @ [(native_allocation CU_MEMORYTYPE_UNIFIED bytesize attach, CUDA_SUCCESS)])))"
  by (simp add: DeviceMemory_ctor_def invoke_def Let_def)

text \<open>
  Four kilobytes on the allocating driver: device-resident without flags, device-resident
  with the global-attach flag, managed with the host-attach flag.
\<close>

theorem DeviceMemory_flags_policy_witness:
  "status (allocating_driver [] (native_allocation CU_MEMORYTYPE_DEVICE 4096 0)) = CUDA_SUCCESS \<and>
   CU_MEM_ATTACH_GLOBAL \<noteq> 0 \<and>
   status (allocating_driver [] (native_allocation CU_MEMORYTYPE_UNIFIED 4096 CU_MEM_ATTACH_HOST)) = CUDA_SUCCESS \<and>
   (\<exists>m. DeviceMemory_ctor allocating_driver 4096 CU_MEMORYTYPE_DEVICE 0 [] =
          (Inr m, [] @ [(native_allocation CU_MEMORYTYPE_DEVICE 4096 0, CUDA_SUCCESS)])) \<and>
   (\<exists>e. DeviceMemory_ctor allocating_driver 4096 CU_MEMORYTYPE_DEVICE CU_MEM_ATTACH_GLOBAL [] = (Inl e, [])) \<and>
   (\<exists>m. DeviceMemory_ctor allocating_driver 4096 CU_MEMORYTYPE_UNIFIED CU_MEM_ATTACH_HOST [] =
          (Inr m, [] @ [(native_allocation CU_MEMORYTYPE_UNIFIED 4096 CU_MEM_ATTACH_HOST, CUDA_SUCCESS)]))"
proof -
  have d: "status (allocating_driver [] (native_allocation CU_MEMORYTYPE_DEVICE 4096 0)) = CUDA_SUCCESS"
    by (simp add: allocating_driver_def answer_def CUDA_SUCCESS_def)
  have g: "CU_MEM_ATTACH_GLOBAL \<noteq> 0"
    by (simp add: CU_MEM_ATTACH_GLOBAL_def)
  have u: "status (allocating_driver [] (native_allocation CU_MEMORYTYPE_UNIFIED 4096 CU_MEM_ATTACH_HOST)) = CUDA_SUCCESS"
    by (simp add: allocating_driver_def answer_def CUDA_SUCCESS_def)
  note t = DeviceMemory_flags_policy [of allocating_driver "[]" 4096 CU_MEM_ATTACH_GLOBAL CU_MEM_ATTACH_HOST]
  show ?thesis
    using d g u t [THEN conjunct1, THEN mp, OF d] t [THEN conjunct2, THEN conjunct1, THEN mp, OF g]
      t [THEN conjunct2, THEN conjunct2, THEN mp, OF conjI [OF disjI1 [OF refl] u]]
    by (intro conjI)
qed

end
